theory Spec2Isabelle
  imports Main "HOL-Library.Word" "HOL-Library.Finite_Map"
begin

section \<open>The user record service\<close>

text \<open>
  A shallow embedding of \<^verbatim>\<open>app/src/services/user_service.go\<close> and of
  \<^verbatim>\<open>app/src/handlers/user_handler.go\<close>.

  \<^item> \<^verbatim>\<open>map[string]*User\<close> is a finite map from strings to records. Every pointer
    stored in the map is allocated by the function that stores it and is stored under one
    key only, so no two keys alias and a write through the pointer is a write to the entry.
  \<^item> \<^verbatim>\<open>int32\<close> is a 32-bit word, read as two's complement by \<open>sint\<close>.
  \<^item> \<^verbatim>\<open>time.Time\<close> is an instant in nanoseconds. Each call of \<^verbatim>\<open>time.Now()\<close> is an
    argument of the function that makes the call, one argument per call, in the order in
    which Go evaluates the calls (lexically left to right).
  \<^item> \<^verbatim>\<open>Time.Format(time.RFC3339)\<close> is library code; the conversion to the wire record
    takes it as the argument \<open>fmt\<close>.
  \<^item> The logger only writes log lines; it is left out.
  \<^item> A run-time panic is \<open>Inl\<close> of a sum; the \<^verbatim>\<open>error\<close> result of a method is an
    option, \<open>None\<close> for \<^verbatim>\<open>nil\<close>.
\<close>

subsection \<open>Data\<close>

type_synonym int32 = "32 word"

type_synonym time = int

definition Hour :: int where
  "Hour = 3600 * 1000000000"

definition Add :: "time \<Rightarrow> int \<Rightarrow> time" where
  "Add t d = t + d"

record User =
  ID :: string
  Name :: string
  Email :: string
  Age :: int32
  CreatedAt :: time
  UpdatedAt :: time

record UserService =
  users :: "(string, User) fmap"

text \<open>The wire messages of package \<^verbatim>\<open>proto\<close>, as the service fills them.\<close>

record proto_User =
  pb_Id :: string
  pb_Name :: string
  pb_Email :: string
  pb_Age :: int32
  pb_CreatedAt :: string
  pb_UpdatedAt :: string

record GetUserResponse =
  get_User :: "proto_User option"
  get_Success :: bool
  get_Message :: string

record CreateUserResponse =
  create_User :: "proto_User option"
  create_Success :: bool
  create_Message :: string

record UpdateUserResponse =
  update_User :: "proto_User option"
  update_Success :: bool
  update_Message :: string

record DeleteUserResponse =
  delete_Success :: bool
  delete_Message :: string

record ListUsersResponse =
  list_Users :: "proto_User list"
  list_Total :: int32
  list_Success :: bool
  list_Message :: string

datatype error = Error string

datatype runtime_panic = slice_bounds_out_of_range

subsection \<open>Library functions the service calls\<close>

text \<open>\<^verbatim>\<open>fmt.Sprintf("%d", n)\<close> for a non-negative \<open>n\<close>: the decimal digits of \<open>n\<close>.\<close>

definition digit_char :: "nat \<Rightarrow> char" where
  "digit_char d = ''0123456789'' ! d"

fun Sprintf_d :: "nat \<Rightarrow> string" where
  "Sprintf_d n = (if n < 10 then [digit_char n] else Sprintf_d (n div 10) @ [digit_char (n mod 10)])"

declare Sprintf_d.simps [simp del]

text \<open>
  The slice expression \<^verbatim>\<open>xs[lo:hi]\<close> of a slice whose capacity is its length: it panics
  unless \<open>0 \<le> lo \<le> hi \<le> len(xs)\<close>.
\<close>

definition slice :: "'a list \<Rightarrow> int \<Rightarrow> int \<Rightarrow> runtime_panic + 'a list" where
  "slice xs lo hi =
     (if 0 \<le> lo \<and> lo \<le> hi \<and> hi \<le> int (length xs)
      then Inr (take (nat hi - nat lo) (drop (nat lo) xs))
      else Inl slice_bounds_out_of_range)"


definition range_users :: "(string, User) fmap \<Rightarrow> string list \<Rightarrow> User list" where
  "range_users m order = List.map_filter (fmlookup m) order"

subsection \<open>The service\<close>

definition initializeSampleData :: "UserService \<Rightarrow> time \<Rightarrow> time \<Rightarrow> time \<Rightarrow> time \<Rightarrow> UserService" where
  "initializeSampleData s now1 now2 now3 now4 =
     (let sampleUsers =
        [\<lparr>ID = ''1'', Name = ''John Doe'', Email = ''john.doe@example.com'', Age = 30,
          CreatedAt = Add now1 (- 24 * Hour), UpdatedAt = Add now2 (- 24 * Hour)\<rparr>,
         \<lparr>ID = ''2'', Name = ''Jane Smith'', Email = ''jane.smith@example.com'', Age = 25,
          CreatedAt = Add now3 (- 12 * Hour), UpdatedAt = Add now4 (- 12 * Hour)\<rparr>]
      in foldl (\<lambda>s user. s\<lparr>users := fmupd (ID user) user (users s)\<rparr>) s sampleUsers)"

definition NewUserService :: "time \<Rightarrow> time \<Rightarrow> time \<Rightarrow> time \<Rightarrow> UserService" where
  "NewUserService now1 now2 now3 now4 =
     (let service = \<lparr>users = fmempty\<rparr>
      in initializeSampleData service now1 now2 now3 now4)"

definition convertToProtoUser :: "(time \<Rightarrow> string) \<Rightarrow> User \<Rightarrow> proto_User" where
  "convertToProtoUser fmt user =
     \<lparr>pb_Id = ID user, pb_Name = Name user, pb_Email = Email user, pb_Age = Age user,
      pb_CreatedAt = fmt (CreatedAt user), pb_UpdatedAt = fmt (UpdatedAt user)\<rparr>"

definition GetUser :: "(time \<Rightarrow> string) \<Rightarrow> UserService \<Rightarrow> string \<Rightarrow> GetUserResponse \<times> error option" where
  "GetUser fmt s req_Id =
     (case fmlookup (users s) req_Id of
        None \<Rightarrow>
          (\<lparr>get_User = None, get_Success = False, get_Message = ''User not found''\<rparr>, None)
      | Some user \<Rightarrow>
          (\<lparr>get_User = Some (convertToProtoUser fmt user), get_Success = True,
            get_Message = ''User retrieved successfully''\<rparr>, None))"

definition CreateUser ::
  "(time \<Rightarrow> string) \<Rightarrow> UserService \<Rightarrow> string \<Rightarrow> string \<Rightarrow> int32 \<Rightarrow> time \<Rightarrow> time
     \<Rightarrow> (CreateUserResponse \<times> error option) \<times> UserService" where
  "CreateUser fmt s req_Name req_Email req_Age now1 now2 =
     (let userID = Sprintf_d (fcard (fmdom (users s)) + 1);
          user = \<lparr>ID = userID, Name = req_Name, Email = req_Email, Age = req_Age,
                  CreatedAt = now1, UpdatedAt = now2\<rparr>;
          s' = s\<lparr>users := fmupd userID user (users s)\<rparr>
      in ((\<lparr>create_User = Some (convertToProtoUser fmt user), create_Success = True,
            create_Message = ''User created successfully''\<rparr>, None), s'))"

definition UpdateUser ::
  "(time \<Rightarrow> string) \<Rightarrow> UserService \<Rightarrow> string \<Rightarrow> string \<Rightarrow> string \<Rightarrow> int32 \<Rightarrow> time
     \<Rightarrow> (UpdateUserResponse \<times> error option) \<times> UserService" where
  "UpdateUser fmt s req_Id req_Name req_Email req_Age now =
     (case fmlookup (users s) req_Id of
        None \<Rightarrow>
          ((\<lparr>update_User = None, update_Success = False,
             update_Message = ''User not found''\<rparr>, None), s)
      | Some user0 \<Rightarrow>
          (let user1 = (if req_Name \<noteq> [] then user0\<lparr>Name := req_Name\<rparr> else user0);
               user2 = (if req_Email \<noteq> [] then user1\<lparr>Email := req_Email\<rparr> else user1);
               user3 = (if 0 <s req_Age then user2\<lparr>Age := req_Age\<rparr> else user2);
               user = user3\<lparr>UpdatedAt := now\<rparr>
           in ((\<lparr>update_User = Some (convertToProtoUser fmt user), update_Success = True,
                 update_Message = ''User updated successfully''\<rparr>, None),
               s\<lparr>users := fmupd req_Id user (users s)\<rparr>)))"

definition DeleteUser :: "UserService \<Rightarrow> string \<Rightarrow> (DeleteUserResponse \<times> error option) \<times> UserService" where
  "DeleteUser s req_Id =
     (case fmlookup (users s) req_Id of
        None \<Rightarrow>
          ((\<lparr>delete_Success = False, delete_Message = ''User not found''\<rparr>, None), s)
      | Some _ \<Rightarrow>
          ((\<lparr>delete_Success = True, delete_Message = ''User deleted successfully''\<rparr>, None),
           s\<lparr>users := fmdrop req_Id (users s)\<rparr>))"

text \<open>
  \<^verbatim>\<open>(req.Page - 1) * req.Limit\<close> is \<^verbatim>\<open>int32\<close> arithmetic and wraps around; \<^verbatim>\<open>int(...)\<close>
  sign-extends it to the 64-bit \<^verbatim>\<open>int\<close>, in which \<^verbatim>\<open>start + int(req.Limit)\<close> cannot
  overflow.
\<close>

definition ListUsers ::
  "(time \<Rightarrow> string) \<Rightarrow> UserService \<Rightarrow> string list \<Rightarrow> int32 \<Rightarrow> int32
     \<Rightarrow> runtime_panic + (ListUsersResponse \<times> error option)" where
  "ListUsers fmt s order req_Page req_Limit =
     (let allUsers = range_users (users s) order;
          start = sint ((req_Page - 1) * req_Limit);
          end0 = start + sint req_Limit
      in if start \<ge> int (length allUsers)
         then Inr (\<lparr>list_Users = [], list_Total = of_nat (length allUsers), list_Success = True,
                    list_Message = ''No users found for the given page''\<rparr>, None)
         else
           (let end1 = (if end0 > int (length allUsers) then int (length allUsers) else end0)
            in case slice allUsers start end1 of
                 Inl p \<Rightarrow> Inl p
               | Inr paginatedUsers \<Rightarrow>
                   Inr (\<lparr>list_Users = map (convertToProtoUser fmt) paginatedUsers,
                         list_Total = of_nat (length allUsers), list_Success = True,
                         list_Message = ''Users retrieved successfully''\<rparr>, None)))"

subsection \<open>The handler\<close>

text \<open>Each handler method logs the request and returns what the service returns.\<close>

definition UserHandler_GetUser ::
  "(time \<Rightarrow> string) \<Rightarrow> UserService \<Rightarrow> string \<Rightarrow> GetUserResponse \<times> error option" where
  "UserHandler_GetUser fmt userService req_Id = GetUser fmt userService req_Id"

definition UserHandler_CreateUser ::
  "(time \<Rightarrow> string) \<Rightarrow> UserService \<Rightarrow> string \<Rightarrow> string \<Rightarrow> int32 \<Rightarrow> time \<Rightarrow> time
     \<Rightarrow> (CreateUserResponse \<times> error option) \<times> UserService" where
  "UserHandler_CreateUser fmt userService req_Name req_Email req_Age now1 now2 =
     CreateUser fmt userService req_Name req_Email req_Age now1 now2"

definition UserHandler_UpdateUser ::
  "(time \<Rightarrow> string) \<Rightarrow> UserService \<Rightarrow> string \<Rightarrow> string \<Rightarrow> string \<Rightarrow> int32 \<Rightarrow> time
     \<Rightarrow> (UpdateUserResponse \<times> error option) \<times> UserService" where
  "UserHandler_UpdateUser fmt userService req_Id req_Name req_Email req_Age now =
     UpdateUser fmt userService req_Id req_Name req_Email req_Age now"

definition UserHandler_DeleteUser ::
  "UserService \<Rightarrow> string \<Rightarrow> (DeleteUserResponse \<times> error option) \<times> UserService" where
  "UserHandler_DeleteUser userService req_Id = DeleteUser userService req_Id"

definition UserHandler_ListUsers ::
  "(time \<Rightarrow> string) \<Rightarrow> UserService \<Rightarrow> string list \<Rightarrow> int32 \<Rightarrow> int32
     \<Rightarrow> runtime_panic + (ListUsersResponse \<times> error option)" where
  "UserHandler_ListUsers fmt userService order req_Page req_Limit =
     ListUsers fmt userService order req_Page req_Limit"

subsection \<open>Runs of mutating requests\<close>

text \<open>
  A mutating request together with the clock readings its method takes: two for a create,
  one for an update, none for a delete. \<open>serve\<close> gives the store after the request.
\<close>

datatype request =
    Create string string int32 time time
  | Update string string string int32 time
  | Delete string

fun serve :: "(time \<Rightarrow> string) \<Rightarrow> UserService \<Rightarrow> request \<Rightarrow> UserService" where
  "serve fmt s (Create req_Name req_Email req_Age now1 now2) =
     snd (CreateUser fmt s req_Name req_Email req_Age now1 now2)"
| "serve fmt s (Update req_Id req_Name req_Email req_Age now) =
     snd (UpdateUser fmt s req_Id req_Name req_Email req_Age now)"
| "serve fmt s (Delete req_Id) = snd (DeleteUser s req_Id)"

fun clock_readings :: "request \<Rightarrow> time list" where
  "clock_readings (Create _ _ _ now1 now2) = [now1, now2]"
| "clock_readings (Update _ _ _ _ now) = [now]"
| "clock_readings (Delete _) = []"

text \<open>
  The invariant of a run: every record is stamped consistently, and was created no later
  than the clock reading \<open>t\<close> taken last.
\<close>

definition stamped :: "time \<Rightarrow> UserService \<Rightarrow> bool" where
  "stamped t s \<longleftrightarrow>
     (\<forall>k u. fmlookup (users s) k = Some u \<longrightarrow> CreatedAt u \<le> UpdatedAt u \<and> CreatedAt u \<le> t)"

subsection \<open>Auxiliary definitions for the statements\<close>

text \<open>Reading a string of decimal digits back as a number.\<close>

definition decimal_value :: "string \<Rightarrow> nat" where
  "decimal_value cs = foldl (\<lambda>acc c. 10 * acc + (of_char c - 48)) 0 cs"

text \<open>
  A layout function for the worked examples, which renders every instant as the empty
  string. The general theorems hold for every layout function.
\<close>

definition no_layout :: "time \<Rightarrow> string" where
  "no_layout t = []"

section \<open>Basic facts\<close>

subsection \<open>Decimal rendering\<close>

lemma of_char_digit_char: "d < 10 \<Longrightarrow> of_char (digit_char d) = (48 + d :: nat)"
proof -
  assume "d < 10"
  then have "d \<in> {0, 1, 2, 3, 4, 5, 6, 7, 8, 9}" by auto
  then show ?thesis by (auto simp: digit_char_def)
qed

lemma decimal_value_Sprintf_d: "decimal_value (Sprintf_d n) = n"
proof (induction n rule: Sprintf_d.induct)
  case (1 n)
  show ?case
  proof (cases "n < 10")
    case True
    then show ?thesis
      by (simp add: Sprintf_d.simps [of n] decimal_value_def of_char_digit_char)
  next
    case False
    with 1 have ih: "decimal_value (Sprintf_d (n div 10)) = n div 10" by simp
    have "decimal_value (Sprintf_d n) = 10 * decimal_value (Sprintf_d (n div 10)) + n mod 10"
      using False by (simp add: Sprintf_d.simps [of n] decimal_value_def of_char_digit_char)
    then show ?thesis by (simp add: ih)
  qed
qed

lemma Sprintf_d_3: "Sprintf_d 3 = ''3''"
  by (simp add: Sprintf_d.simps digit_char_def)

lemma Sprintf_d_Suc:
  "Sprintf_d (Suc 0) = ''1''"
  "Sprintf_d (Suc (Suc 0)) = ''2''"
  "Sprintf_d (Suc (Suc (Suc 0))) = ''3''"
  by (simp_all add: Sprintf_d.simps digit_char_def)

subsection \<open>The seeded store\<close>

lemma users_NewUserService:
  "users (NewUserService now1 now2 now3 now4) =
     fmupd ''2'' \<lparr>ID = ''2'', Name = ''Jane Smith'', Email = ''jane.smith@example.com'', Age = 25,
          CreatedAt = now3 - 43200000000000, UpdatedAt = now4 - 43200000000000\<rparr>
      (fmupd ''1'' \<lparr>ID = ''1'', Name = ''John Doe'', Email = ''john.doe@example.com'', Age = 30,
          CreatedAt = now1 - 86400000000000, UpdatedAt = now2 - 86400000000000\<rparr> fmempty)"
  by (simp add: NewUserService_def initializeSampleData_def Add_def Hour_def)

lemma fcard_seed: "fcard (fmdom (users (NewUserService now1 now2 now3 now4))) = 2"
  by (simp add: users_NewUserService fcard_finsert_if)

lemma range_users_seed:
  "range_users (users (NewUserService now1 now2 now3 now4)) [''1'', ''2''] =
     [\<lparr>ID = ''1'', Name = ''John Doe'', Email = ''john.doe@example.com'', Age = 30,
          CreatedAt = now1 - 86400000000000, UpdatedAt = now2 - 86400000000000\<rparr>,
      \<lparr>ID = ''2'', Name = ''Jane Smith'', Email = ''jane.smith@example.com'', Age = 25,
          CreatedAt = now3 - 43200000000000, UpdatedAt = now4 - 43200000000000\<rparr>]"
  by (simp add: range_users_def users_NewUserService List.map_filter_simps)


subsection \<open>Iterating over the map\<close>


subsection \<open>The stamping invariant\<close>

lemma stamped_mono: "stamped t s \<Longrightarrow> t \<le> t' \<Longrightarrow> stamped t' s"
  by (fastforce simp: stamped_def)

lemma stamped_CreateUser:
  assumes "stamped t s" "t \<le> now1" "now1 \<le> now2"
  shows "stamped now2 (snd (CreateUser fmt s req_Name req_Email req_Age now1 now2))"
  using assms by (fastforce simp: stamped_def CreateUser_def Let_def split: if_splits)

lemma stamped_UpdateUser:
  assumes "stamped t s" "t \<le> now"
  shows "stamped now (snd (UpdateUser fmt s req_Id req_Name req_Email req_Age now))"
proof (cases "fmlookup (users s) req_Id")
  case None
  then have "snd (UpdateUser fmt s req_Id req_Name req_Email req_Age now) = s"
    by (simp add: UpdateUser_def)
  with assms show ?thesis by (simp add: stamped_mono)
next
  case (Some u)
  from assms Some have c: "CreatedAt u \<le> now"
    by (fastforce simp: stamped_def)
  show ?thesis
    unfolding stamped_def
  proof (intro allI impI)
    fix k v
    assume l: "fmlookup (users (snd (UpdateUser fmt s req_Id req_Name req_Email req_Age now))) k = Some v"
    show "CreatedAt v \<le> UpdatedAt v \<and> CreatedAt v \<le> now"
    proof (cases "k = req_Id")
      case True
      with l Some have "CreatedAt v = CreatedAt u \<and> UpdatedAt v = now"
        by (auto simp: UpdateUser_def Let_def)
      with c show ?thesis by simp
    next
      case False
      with l Some have "fmlookup (users s) k = Some v"
        by (simp add: UpdateUser_def Let_def)
      with assms show ?thesis by (fastforce simp: stamped_def)
    qed
  qed
qed

lemma stamped_DeleteUser:
  assumes "stamped t s"
  shows "stamped t (snd (DeleteUser s req_Id))"
  using assms by (auto simp: stamped_def DeleteUser_def split: option.splits if_splits)

lemma stamped_serve:
  assumes "stamped t s" "sorted (t # clock_readings r)"
  shows "stamped (last (t # clock_readings r)) (serve fmt s r)"
proof (cases r)
  case (Create n e a now1 now2)
  with assms show ?thesis by (simp add: stamped_CreateUser)
next
  case (Update i n e a now)
  with assms show ?thesis by (simp add: stamped_UpdateUser)
next
  case (Delete i)
  with assms show ?thesis by (simp add: stamped_DeleteUser)
qed

lemma stamped_foldl:
  assumes "stamped t s" "sorted (t # concat (map clock_readings rs))"
  shows "\<exists>t'. stamped t' (foldl (serve fmt) s rs)"
  using assms
proof (induction rs arbitrary: t s)
  case Nil
  then show ?case by auto
next
  case (Cons r rs)
  let ?t = "last (t # clock_readings r)"
  from Cons.prems have s1: "sorted (t # clock_readings r)"
    by (simp add: sorted_append)
  have s2: "sorted (?t # concat (map clock_readings rs))"
    using Cons.prems by (cases r) (auto simp: sorted_append)
  from Cons.prems(1) s1 have "stamped ?t (serve fmt s r)"
    by (rule stamped_serve)
  from Cons.IH [OF this s2] show ?case by simp
qed

lemma stamped_NewUserService:
  assumes "now1 \<le> now2" "now2 \<le> now3" "now3 \<le> now4"
  shows "stamped now4 (NewUserService now1 now2 now3 now4)"
  using assms by (auto simp: stamped_def users_NewUserService split: if_splits)

subsection \<open>Wrap-around of the start offset\<close>

text \<open>
  The product \<open>(page - 1) * limit\<close> is taken in 32 bits: for page 65537 and limit 65536
  it is \<open>2 ^ 32\<close>, which wraps to 0, so the request is served as the first page.
\<close>

lemma ListUsers_start_wraps:
  "ListUsers no_layout (NewUserService 0 0 0 0) [''1'', ''2''] 65537 65536 =
     Inr (\<lparr>list_Users =
             [\<lparr>pb_Id = ''1'', pb_Name = ''John Doe'', pb_Email = ''john.doe@example.com'',
               pb_Age = 30, pb_CreatedAt = [], pb_UpdatedAt = []\<rparr>,
              \<lparr>pb_Id = ''2'', pb_Name = ''Jane Smith'', pb_Email = ''jane.smith@example.com'',
               pb_Age = 25, pb_CreatedAt = [], pb_UpdatedAt = []\<rparr>],
           list_Total = 2, list_Success = True,
           list_Message = ''Users retrieved successfully''\<rparr>, None)"
  by (simp add: ListUsers_def range_users_seed slice_def convertToProtoUser_def no_layout_def)

section \<open>The claims\<close>

subsection \<open>C1: what a create does\<close>

text \<open>
  C1, as amended. For every store and every request, \<open>CreateUser\<close> allocates the id that
  is the decimal rendering of the live record count plus one (a function of the count
  alone; read back as a number it is that count plus one), builds the record from the
  request with \<open>CreatedAt\<close> the first clock reading and \<open>UpdatedAt\<close> the second, stores
  it under that id, and returns the record with success and a nil error.
\<close>

theorem CreateUser_allocates_and_inserts:
  "CreateUser fmt s req_Name req_Email req_Age now1 now2 =
     ((\<lparr>create_User = Some (convertToProtoUser fmt
           \<lparr>ID = Sprintf_d (fcard (fmdom (users s)) + 1), Name = req_Name, Email = req_Email,
            Age = req_Age, CreatedAt = now1, UpdatedAt = now2\<rparr>),
        create_Success = True, create_Message = ''User created successfully''\<rparr>, None),
      s\<lparr>users := fmupd (Sprintf_d (fcard (fmdom (users s)) + 1))
           \<lparr>ID = Sprintf_d (fcard (fmdom (users s)) + 1), Name = req_Name, Email = req_Email,
            Age = req_Age, CreatedAt = now1, UpdatedAt = now2\<rparr> (users s)\<rparr>)
   \<and> decimal_value (Sprintf_d (fcard (fmdom (users s)) + 1)) = fcard (fmdom (users s)) + 1"
  by (simp add: CreateUser_def Let_def decimal_value_Sprintf_d)

text \<open>
  C1 as stated fails: the two stamps come from two calls of \<^verbatim>\<open>time.Now()\<close>. With the
  clock reading 5 at the first call and 6 at the second, the record created on the seeded
  store (under the id 3) has \<open>CreatedAt = 5\<close> and \<open>UpdatedAt = 6\<close>, not one current time.
\<close>

theorem CreateUser_two_clock_readings:
  "fmlookup (users (snd (CreateUser no_layout (NewUserService 0 0 0 0) ''A'' ''a@x.com'' 20 5 6))) ''3'' =
     Some \<lparr>ID = ''3'', Name = ''A'', Email = ''a@x.com'', Age = 20, CreatedAt = 5, UpdatedAt = 6\<rparr>"
  by (simp add: CreateUser_def Let_def fcard_seed Sprintf_d_3)

subsection \<open>C2: pagination\<close>




subsection \<open>C3: what an update of a present id does\<close>

text \<open>
  C3. For every store in which the id is present, \<open>UpdateUser\<close> overwrites the name only
  if the supplied name is non-empty, the email only if the supplied email is non-empty, the
  age only if the supplied age is strictly positive, leaves the id and \<open>CreatedAt\<close> as
  they are, sets \<open>UpdatedAt\<close> to the clock reading whatever the request holds, stores the
  record under the id, and returns it with success and a nil error.
\<close>

theorem UpdateUser_found:
  assumes "fmlookup (users s) req_Id = Some u"
  shows "UpdateUser fmt s req_Id req_Name req_Email req_Age now =
     ((\<lparr>update_User = Some (convertToProtoUser fmt
           \<lparr>ID = ID u, Name = (if req_Name = [] then Name u else req_Name),
            Email = (if req_Email = [] then Email u else req_Email),
            Age = (if 0 < sint req_Age then req_Age else Age u),
            CreatedAt = CreatedAt u, UpdatedAt = now\<rparr>),
        update_Success = True, update_Message = ''User updated successfully''\<rparr>, None),
      s\<lparr>users := fmupd req_Id
           \<lparr>ID = ID u, Name = (if req_Name = [] then Name u else req_Name),
            Email = (if req_Email = [] then Email u else req_Email),
            Age = (if 0 < sint req_Age then req_Age else Age u),
            CreatedAt = CreatedAt u, UpdatedAt = now\<rparr> (users s)\<rparr>)"
  using assms by (cases u) (simp add: UpdateUser_def Let_def word_sless_alt)

text \<open>
  C3 on the seeded store: updating id 1 with the name "New", an empty email and age 0 at
  clock reading 7 changes the name and \<open>UpdatedAt\<close> only.
\<close>

theorem UpdateUser_found_witness:
  "fmlookup (users (NewUserService 0 0 0 0)) ''1'' =
      Some \<lparr>ID = ''1'', Name = ''John Doe'', Email = ''john.doe@example.com'', Age = 30,
             CreatedAt = - 86400000000000, UpdatedAt = - 86400000000000\<rparr>
   \<and> UpdateUser no_layout (NewUserService 0 0 0 0) ''1'' ''New'' [] 0 7 =
     ((\<lparr>update_User = Some \<lparr>pb_Id = ''1'', pb_Name = ''New'', pb_Email = ''john.doe@example.com'',
           pb_Age = 30, pb_CreatedAt = [], pb_UpdatedAt = []\<rparr>,
        update_Success = True, update_Message = ''User updated successfully''\<rparr>, None),
      (NewUserService 0 0 0 0)\<lparr>users := fmupd ''1''
           \<lparr>ID = ''1'', Name = ''New'', Email = ''john.doe@example.com'', Age = 30,
             CreatedAt = - 86400000000000, UpdatedAt = 7\<rparr> (users (NewUserService 0 0 0 0))\<rparr>)"
proof -
  have h: "fmlookup (users (NewUserService 0 0 0 0)) ''1'' =
      Some \<lparr>ID = ''1'', Name = ''John Doe'', Email = ''john.doe@example.com'', Age = 30,
             CreatedAt = - 86400000000000, UpdatedAt = - 86400000000000\<rparr>"
    by (simp add: users_NewUserService)
  show ?thesis
    using h UpdateUser_found [OF h, of no_layout "''New''" "[]" 0 7]
    by (simp add: convertToProtoUser_def no_layout_def)
qed

subsection \<open>C4: no hard failure\<close>

text \<open>
  C4 does not hold of the code. On the seeded store, the handler's list method called
  with page 1 and limit -1 computes \<open>start = 0\<close> and \<open>end = -1\<close>; the guards bound
  \<open>start\<close> and \<open>end\<close> from above only, so the slice expression panics. The same
  happens with page 0 and limit 1.
\<close>

theorem UserHandler_ListUsers_panics:
  "UserHandler_ListUsers no_layout (NewUserService 0 0 0 0) [''1'', ''2''] 1 (- 1) =
     Inl slice_bounds_out_of_range
   \<and> UserHandler_ListUsers no_layout (NewUserService 0 0 0 0) [''1'', ''2''] 0 1 =
     Inl slice_bounds_out_of_range"
  by (simp add: UserHandler_ListUsers_def ListUsers_def range_users_seed slice_def)

subsection \<open>C5: what a create leaves alone\<close>

text \<open>
  C5, as amended. For every store and every create, every id present before the call is
  present after it; every id other than the generated one (the decimal rendering of the
  live count plus one) maps to what it mapped to before; and the generated id maps to the
  new record, which replaces whatever was stored under it.
\<close>

theorem CreateUser_frame:
  "fmdom (users s) |\<subseteq>| fmdom (users (snd (CreateUser fmt s req_Name req_Email req_Age now1 now2)))
   \<and> (k \<noteq> Sprintf_d (fcard (fmdom (users s)) + 1) \<longrightarrow>
        fmlookup (users (snd (CreateUser fmt s req_Name req_Email req_Age now1 now2))) k =
          fmlookup (users s) k)
   \<and> fmlookup (users (snd (CreateUser fmt s req_Name req_Email req_Age now1 now2)))
        (Sprintf_d (fcard (fmdom (users s)) + 1)) =
       Some \<lparr>ID = Sprintf_d (fcard (fmdom (users s)) + 1), Name = req_Name, Email = req_Email,
             Age = req_Age, CreatedAt = now1, UpdatedAt = now2\<rparr>"
  by (auto simp add: CreateUser_def Let_def)

text \<open>
  The amended C5 on the seeded store: the generated id is 3, and the record under the id 1
  is the same after a create.
\<close>

theorem CreateUser_frame_witness:
  "''1'' \<noteq> Sprintf_d (fcard (fmdom (users (NewUserService 0 0 0 0))) + 1)
   \<and> fmlookup (users (snd (CreateUser no_layout (NewUserService 0 0 0 0) ''A'' ''a@x.com'' 20 5 5))) ''1'' =
     Some \<lparr>ID = ''1'', Name = ''John Doe'', Email = ''john.doe@example.com'', Age = 30,
           CreatedAt = - 86400000000000, UpdatedAt = - 86400000000000\<rparr>"
proof -
  have h: "''1'' \<noteq> Sprintf_d (fcard (fmdom (users (NewUserService 0 0 0 0))) + 1)"
    by (simp add: fcard_seed Sprintf_d_3)
  from CreateUser_frame [of "NewUserService 0 0 0 0" no_layout "''A''" "''a@x.com''" 20 5 5 "''1''"] h
  have "fmlookup (users (snd (CreateUser no_layout (NewUserService 0 0 0 0) ''A'' ''a@x.com'' 20 5 5))) ''1'' =
          fmlookup (users (NewUserService 0 0 0 0)) ''1''"
    by blast
  with h show ?thesis by (simp add: users_NewUserService)
qed

text \<open>
  C5 as stated fails on a reachable store: after the seeded store has lost the id 1, the
  live count is 1, so a create generates the id 2 and the record of Jane Smith stored
  under it is replaced by the new record.
\<close>

theorem CreateUser_replaces_after_delete:
  "fmlookup (users (snd (DeleteUser (NewUserService 0 0 0 0) ''1''))) ''2'' =
     Some \<lparr>ID = ''2'', Name = ''Jane Smith'', Email = ''jane.smith@example.com'', Age = 25,
           CreatedAt = - 43200000000000, UpdatedAt = - 43200000000000\<rparr>
   \<and> fmlookup (users (snd (CreateUser no_layout (snd (DeleteUser (NewUserService 0 0 0 0) ''1''))
                            ''A'' ''a@x.com'' 20 5 5))) ''2'' =
     Some \<lparr>ID = ''2'', Name = ''A'', Email = ''a@x.com'', Age = 20, CreatedAt = 5, UpdatedAt = 5\<rparr>"
  by (simp add: DeleteUser_def CreateUser_def Let_def users_NewUserService fcard_finsert_if
        fcard_fempty Sprintf_d_Suc)

subsection \<open>C6: an absent id\<close>

text \<open>
  C6. For every store and every id that is not a key, \<open>GetUser\<close>, \<open>UpdateUser\<close> and
  \<open>DeleteUser\<close> each return success false, the message "User not found", no record
  (the delete response has no record field) and a nil error; the update and the delete
  return the store as it was (the get has no store to return), and a second delete of the
  same id returns what the first returned.
\<close>

theorem not_found_outcomes:
  assumes "req_Id |\<notin>| fmdom (users s)"
  shows "GetUser fmt s req_Id =
           (\<lparr>get_User = None, get_Success = False, get_Message = ''User not found''\<rparr>, None)
       \<and> UpdateUser fmt s req_Id req_Name req_Email req_Age now =
           ((\<lparr>update_User = None, update_Success = False, update_Message = ''User not found''\<rparr>, None), s)
       \<and> DeleteUser s req_Id =
           ((\<lparr>delete_Success = False, delete_Message = ''User not found''\<rparr>, None), s)
       \<and> DeleteUser (snd (DeleteUser s req_Id)) req_Id =
           ((\<lparr>delete_Success = False, delete_Message = ''User not found''\<rparr>, None), s)"
proof -
  from assms have n: "fmlookup (users s) req_Id = None"
    by (rule fmdom_notD)
  show ?thesis
    by (simp add: GetUser_def UpdateUser_def DeleteUser_def n)
qed

text \<open>C6 on the seeded store, for the id 999.\<close>

theorem not_found_outcomes_witness:
  "''999'' |\<notin>| fmdom (users (NewUserService 0 0 0 0))
   \<and> GetUser no_layout (NewUserService 0 0 0 0) ''999'' =
           (\<lparr>get_User = None, get_Success = False, get_Message = ''User not found''\<rparr>, None)
   \<and> DeleteUser (snd (DeleteUser (NewUserService 0 0 0 0) ''999'')) ''999'' =
           ((\<lparr>delete_Success = False, delete_Message = ''User not found''\<rparr>, None), NewUserService 0 0 0 0)"
proof -
  have h: "''999'' |\<notin>| fmdom (users (NewUserService 0 0 0 0))"
    by (simp add: users_NewUserService)
  show ?thesis
    using h not_found_outcomes [OF h, of no_layout "[]" "[]" 0 0] by simp
qed

subsection \<open>C7: the seeded store\<close>

text \<open>
  C7, as amended. A freshly constructed store holds exactly the ids 1 and 2: John Doe,
  john.doe@example.com, age 30, with \<open>CreatedAt\<close> 24 hours before the first clock reading
  and \<open>UpdatedAt\<close> 24 hours before the second; Jane Smith, jane.smith@example.com, age
  25, with \<open>CreatedAt\<close> 12 hours before the third clock reading and \<open>UpdatedAt\<close> 12 hours
  before the fourth. So \<open>UpdatedAt\<close> differs from \<open>CreatedAt\<close> by the time between the
  two readings.
\<close>

theorem NewUserService_seed:
  "fmdom (users (NewUserService now1 now2 now3 now4)) = {|''1'', ''2''|}
   \<and> fmlookup (users (NewUserService now1 now2 now3 now4)) ''1'' =
       Some \<lparr>ID = ''1'', Name = ''John Doe'', Email = ''john.doe@example.com'', Age = 30,
             CreatedAt = now1 - 24 * 3600 * 1000000000, UpdatedAt = now2 - 24 * 3600 * 1000000000\<rparr>
   \<and> fmlookup (users (NewUserService now1 now2 now3 now4)) ''2'' =
       Some \<lparr>ID = ''2'', Name = ''Jane Smith'', Email = ''jane.smith@example.com'', Age = 25,
             CreatedAt = now3 - 12 * 3600 * 1000000000, UpdatedAt = now4 - 12 * 3600 * 1000000000\<rparr>"
  by (auto simp add: users_NewUserService)

text \<open>
  C7 as stated fails: with the clock reading 0 at the first call of \<^verbatim>\<open>time.Now()\<close> and 1
  at the later ones, the seeded record 1 has an \<open>UpdatedAt\<close> one nanosecond after its
  \<open>CreatedAt\<close>.
\<close>

theorem NewUserService_seed_stamps_differ:
  "fmlookup (users (NewUserService 0 1 1 1)) ''1'' =
     Some \<lparr>ID = ''1'', Name = ''John Doe'', Email = ''john.doe@example.com'', Age = 30,
           CreatedAt = - 86400000000000, UpdatedAt = - 86399999999999\<rparr>"
  by (simp add: users_NewUserService)

subsection \<open>C8: creation precedes the last update\<close>

text \<open>
  C8, as amended. Provided the clock never runs backwards, that is, the readings taken by
  the constructor and then by the requests, in the order taken, are non-decreasing: after
  any sequence of creates, updates and deletes on the freshly seeded store, every record
  in the store has \<open>CreatedAt \<le> UpdatedAt\<close>.
\<close>

theorem CreatedAt_le_UpdatedAt:
  assumes "sorted (now1 # now2 # now3 # now4 # concat (map clock_readings rs))"
    and "fmlookup (users (foldl (serve fmt) (NewUserService now1 now2 now3 now4) rs)) k = Some u"
  shows "CreatedAt u \<le> UpdatedAt u"
proof -
  from assms(1) have "stamped now4 (NewUserService now1 now2 now3 now4)"
    by (intro stamped_NewUserService) auto
  moreover from assms(1) have "sorted (now4 # concat (map clock_readings rs))"
    by simp
  ultimately obtain t' where "stamped t' (foldl (serve fmt) (NewUserService now1 now2 now3 now4) rs)"
    using stamped_foldl by blast
  with assms(2) show ?thesis by (auto simp: stamped_def)
qed

text \<open>
  The amended C8 on a run: the store seeded at the readings 1, 2, 3, 4 serves a create at 5 and 6, an
  update of the id 1 at 7 and a delete of the id 2; the record 1 then has the stamps shown.
\<close>

theorem CreatedAt_le_UpdatedAt_witness:
  "sorted (1 # 2 # 3 # 4 # concat (map clock_readings
       [Create ''A'' ''a@x.com'' 20 5 6, Update ''1'' ''New'' [] 0 7, Delete ''2'']))
   \<and> fmlookup (users (foldl (serve no_layout) (NewUserService 1 2 3 4)
        [Create ''A'' ''a@x.com'' 20 5 6, Update ''1'' ''New'' [] 0 7, Delete ''2''])) ''1'' =
       Some \<lparr>ID = ''1'', Name = ''New'', Email = ''john.doe@example.com'', Age = 30,
             CreatedAt = - 86399999999999, UpdatedAt = 7\<rparr>
   \<and> CreatedAt \<lparr>ID = ''1'', Name = ''New'', Email = ''john.doe@example.com'', Age = 30,
             CreatedAt = - 86399999999999, UpdatedAt = 7\<rparr>
       \<le> UpdatedAt \<lparr>ID = ''1'', Name = ''New'', Email = ''john.doe@example.com'', Age = 30,
             CreatedAt = - 86399999999999, UpdatedAt = 7\<rparr>"
proof -
  have h1: "sorted (1 # 2 # 3 # 4 # concat (map clock_readings
       [Create ''A'' ''a@x.com'' 20 5 6, Update ''1'' ''New'' [] 0 7, Delete ''2'']))"
    by simp
  have h2: "fmlookup (users (foldl (serve no_layout) (NewUserService 1 2 3 4)
        [Create ''A'' ''a@x.com'' 20 5 6, Update ''1'' ''New'' [] 0 7, Delete ''2''])) ''1'' =
       Some \<lparr>ID = ''1'', Name = ''New'', Email = ''john.doe@example.com'', Age = 30,
             CreatedAt = - 86399999999999, UpdatedAt = 7\<rparr>"
    by (simp add: CreateUser_def UpdateUser_def DeleteUser_def Let_def users_NewUserService
          fcard_finsert_if fcard_fempty Sprintf_d_Suc)
  from h1 h2 CreatedAt_le_UpdatedAt [OF h1 h2] show ?thesis by blast
qed

text \<open>
  C8 as stated, with no condition on the clock, fails: the code orders no two readings of
  \<^verbatim>\<open>time.Now()\<close>. If the clock reads 1 at the first call of the constructor and 0 at
  the second, the seeded record 1 is created one nanosecond after its last update, before
  any request; and a create whose two readings are 6 and then 5 stores a record created
  after its last update.
\<close>

theorem CreatedAt_after_UpdatedAt_clock_backwards:
  "fmlookup (users (foldl (serve no_layout) (NewUserService 1 0 0 0) [])) ''1'' =
     Some \<lparr>ID = ''1'', Name = ''John Doe'', Email = ''john.doe@example.com'', Age = 30,
           CreatedAt = - 86399999999999, UpdatedAt = - 86400000000000\<rparr>
   \<and> fmlookup (users (foldl (serve no_layout) (NewUserService 0 0 0 0)
        [Create ''A'' ''a@x.com'' 20 6 5])) ''3'' =
     Some \<lparr>ID = ''3'', Name = ''A'', Email = ''a@x.com'', Age = 20, CreatedAt = 6, UpdatedAt = 5\<rparr>"
  by (simp add: users_NewUserService CreateUser_def Let_def fcard_finsert_if fcard_fempty
        Sprintf_d_Suc)

subsection \<open>C9: deleting a present id\<close>

text \<open>
  C9. For every store and every id that is a key, \<open>DeleteUser\<close> returns success (its
  response has no record field) and a nil error; the live count afterwards is one less
  than before; the id is no longer a key, and a get of it on the resulting store returns
  success false.
\<close>

theorem DeleteUser_found:
  assumes "req_Id |\<in>| fmdom (users s)"
  shows "fst (DeleteUser s req_Id) =
           (\<lparr>delete_Success = True, delete_Message = ''User deleted successfully''\<rparr>, None)
       \<and> Suc (fcard (fmdom (users (snd (DeleteUser s req_Id))))) = fcard (fmdom (users s))
       \<and> req_Id |\<notin>| fmdom (users (snd (DeleteUser s req_Id)))
       \<and> GetUser fmt (snd (DeleteUser s req_Id)) req_Id =
           (\<lparr>get_User = None, get_Success = False, get_Message = ''User not found''\<rparr>, None)"
proof -
  from assms obtain u where u: "fmlookup (users s) req_Id = Some u"
    by (auto simp: fmlookup_dom_iff)
  have d: "DeleteUser s req_Id =
      ((\<lparr>delete_Success = True, delete_Message = ''User deleted successfully''\<rparr>, None),
       s\<lparr>users := fmdrop req_Id (users s)\<rparr>)"
    by (simp add: DeleteUser_def u)
  have c: "Suc (fcard (fmdom (users s) |-| {|req_Id|})) = fcard (fmdom (users s))"
    using assms by (rule fcard_Suc_fminus1)
  show ?thesis
    by (simp add: d c GetUser_def)
qed

text \<open>C9 on the seeded store: deleting the id 2 leaves one record, and the id 2 is not found.\<close>

theorem DeleteUser_found_witness:
  "''2'' |\<in>| fmdom (users (NewUserService 0 0 0 0))
   \<and> fst (DeleteUser (NewUserService 0 0 0 0) ''2'') =
           (\<lparr>delete_Success = True, delete_Message = ''User deleted successfully''\<rparr>, None)
   \<and> fcard (fmdom (users (snd (DeleteUser (NewUserService 0 0 0 0) ''2'')))) = 1
   \<and> GetUser no_layout (snd (DeleteUser (NewUserService 0 0 0 0) ''2'')) ''2'' =
           (\<lparr>get_User = None, get_Success = False, get_Message = ''User not found''\<rparr>, None)"
proof -
  have h: "''2'' |\<in>| fmdom (users (NewUserService 0 0 0 0))"
    by (simp add: users_NewUserService)
  show ?thesis
    using h DeleteUser_found [OF h, of no_layout] by (simp add: fcard_seed)
qed

subsection \<open>C10: a create validates nothing\<close>

text \<open>
  C10. For every store and every request, empty strings and non-positive ages included,
  \<open>CreateUser\<close> returns success with a nil error and stores the supplied name, email and
  age as they are. An update cannot produce such values: if after an update of a present
  id the name is empty, it was empty before; likewise the email; and if the age is not
  positive, it is the age the record had before.
\<close>

theorem CreateUser_no_validation:
  "fst (CreateUser fmt s req_Name req_Email req_Age now1 now2) =
     (\<lparr>create_User = Some \<lparr>pb_Id = Sprintf_d (fcard (fmdom (users s)) + 1), pb_Name = req_Name,
          pb_Email = req_Email, pb_Age = req_Age, pb_CreatedAt = fmt now1, pb_UpdatedAt = fmt now2\<rparr>,
       create_Success = True, create_Message = ''User created successfully''\<rparr>, None)
   \<and> fmlookup (users (snd (CreateUser fmt s req_Name req_Email req_Age now1 now2)))
        (Sprintf_d (fcard (fmdom (users s)) + 1)) =
       Some \<lparr>ID = Sprintf_d (fcard (fmdom (users s)) + 1), Name = req_Name, Email = req_Email,
             Age = req_Age, CreatedAt = now1, UpdatedAt = now2\<rparr>
   \<and> (fmlookup (users s) k = Some u
        \<and> fmlookup (users (snd (UpdateUser fmt s k upd_Name upd_Email upd_Age now))) k = Some u'
        \<longrightarrow> (Name u' = [] \<longrightarrow> Name u = [])
          \<and> (Email u' = [] \<longrightarrow> Email u = [])
          \<and> (sint (Age u') \<le> 0 \<longrightarrow> Age u' = Age u))"
  by (cases u) (auto simp add: CreateUser_def UpdateUser_def Let_def convertToProtoUser_def
        word_sless_alt split: if_splits)

text \<open>
  C10 on the seeded store: a create with an empty name, an empty email and age 0 stores
  exactly that under the id 3; an update of the id 3 with an empty name, an email and the
  age -1 changes the email only, and the name, empty afterwards, was empty before.
\<close>

theorem CreateUser_no_validation_witness:
  "fmlookup (users (snd (CreateUser no_layout (NewUserService 0 0 0 0) [] [] 0 5 6))) ''3'' =
     Some \<lparr>ID = ''3'', Name = [], Email = [], Age = 0, CreatedAt = 5, UpdatedAt = 6\<rparr>
   \<and> fmlookup (users (snd (UpdateUser no_layout
         (snd (CreateUser no_layout (NewUserService 0 0 0 0) [] [] 0 5 6)) ''3'' [] ''e@x.com'' (- 1) 7))) ''3'' =
     Some \<lparr>ID = ''3'', Name = [], Email = ''e@x.com'', Age = 0, CreatedAt = 5, UpdatedAt = 7\<rparr>
   \<and> Name \<lparr>ID = ''3'', Name = [], Email = [], Age = 0 :: int32, CreatedAt = 5 :: int, UpdatedAt = 6 :: int\<rparr> = []"
proof -
  let ?s = "snd (CreateUser no_layout (NewUserService 0 0 0 0) [] [] 0 5 6)"
  let ?u = "\<lparr>ID = ''3'', Name = [], Email = [], Age = 0 :: int32, CreatedAt = 5 :: int, UpdatedAt = 6 :: int\<rparr>"
  let ?u' = "\<lparr>ID = ''3'', Name = [], Email = ''e@x.com'', Age = 0 :: int32, CreatedAt = 5 :: int, UpdatedAt = 7 :: int\<rparr>"
  have h1: "fmlookup (users ?s) ''3'' = Some ?u"
    by (simp add: CreateUser_def Let_def fcard_seed Sprintf_d_3)
  have h2: "fmlookup (users (snd (UpdateUser no_layout ?s ''3'' [] ''e@x.com'' (- 1) 7))) ''3'' = Some ?u'"
    by (simp add: UpdateUser_def Let_def h1)
  have n: "Name ?u' = []" by simp
  from CreateUser_no_validation [of no_layout ?s "[]" "[]" 0 0 0 "''3''" ?u "[]" "''e@x.com''" "- 1" 7 ?u'] h1 h2 n
  have "Name ?u = []" by blast
  with h1 h2 show ?thesis by blast
qed

end
